theory Spec2Isabelle
  imports Main "HOL-Library.Word"
begin

section \<open>Rewriting local import specifiers (src/getRequires.ts)\<close>

text \<open>
  The development follows \<^verbatim>\<open>src/getRequires.ts\<close>: the extension policy
  \<^verbatim>\<open>BasicFileExtensionTransform\<close>, and the class \<^verbatim>\<open>ImportModifier\<close> with its
  methods \<^verbatim>\<open>init\<close>, \<^verbatim>\<open>modifyToFile\<close>, \<^verbatim>\<open>modifyToBuffer\<close>, \<^verbatim>\<open>replace\<close> and the
  getter \<^verbatim>\<open>localImports\<close>.

  A Node \<^verbatim>\<open>Buffer\<close> is a list of bytes, each a \<^typ>\<open>char\<close> (which has 256 values),
  so a buffer of ASCII text is written as the text. A JavaScript string that the code
  computes with is a list of UTF-16 code units, each a \<^typ>\<open>16 word\<close>;
  \<^verbatim>\<open>Buffer.toString()\<close> decodes UTF-8 and \<^verbatim>\<open>Buffer.from(s, 'utf-8')\<close> encodes it.
  File paths and error messages, which the code only passes on, stay texts. Offsets are
  natural numbers, as acorn produces them; the code uses them as byte offsets.
\<close>

subsection \<open>Errors\<close>

text \<open>
  Every \<^verbatim>\<open>throw new Error(msg)\<close> of the source is \<open>Error msg\<close>. A rejected promise
  of \<^verbatim>\<open>fs/promises\<close> is a \<open>SystemError\<close> with its code, and a source text that acorn
  refuses is a \<open>SyntaxError\<close>.
\<close>

datatype error = Error string | SystemError string | SyntaxError string

subsection \<open>The string and buffer primitives the source calls\<close>

type_synonym jsstring = "16 word list"

abbreviation sq :: char where "sq \<equiv> CHR 0x27"
abbreviation dq :: char where "dq \<equiv> CHR 0x22"

text \<open>A string literal of the source, which is ASCII: one code unit for each character.\<close>

definition js :: "string \<Rightarrow> jsstring" where
  "js s = map (\<lambda>c. of_nat (of_char c)) s"

text \<open>\<^verbatim>\<open>String.prototype.startsWith(search)\<close>, from position 0.\<close>

definition startsWith :: "jsstring \<Rightarrow> jsstring \<Rightarrow> bool" where
  "startsWith s search = (length search \<le> length s \<and> take (length search) s = search)"

text \<open>
  \<^verbatim>\<open>String.prototype.endsWith(search)\<close>: the comparison starts at
  \<open>length s - length search\<close> and the answer is false when that is negative.
\<close>

definition endsWith :: "jsstring \<Rightarrow> jsstring \<Rightarrow> bool" where
  "endsWith s search =
     (let start = int (length s) - int (length search)
      in if start < 0 then False else drop (nat start) s = search)"

text \<open>
  \<^verbatim>\<open>String.prototype.substring(a, b)\<close>: both indices are clamped to \<open>[0, length]\<close>
  and swapped when the first is the larger.
\<close>

definition substring :: "jsstring \<Rightarrow> int \<Rightarrow> int \<Rightarrow> jsstring" where
  "substring s a b =
     (let len = int (length s);
          finalStart = min (max a 0) len;
          finalEnd = min (max b 0) len;
          from = min finalStart finalEnd;
          to = max finalStart finalEnd
      in take (nat (to - from)) (drop (nat from) s))"

text \<open>\<^verbatim>\<open>String.prototype.charAt(i)\<close>: the empty string when \<open>i\<close> is out of range.\<close>

definition charAt :: "jsstring \<Rightarrow> nat \<Rightarrow> jsstring" where
  "charAt s i = (if i < length s then [s ! i] else [])"

text \<open>
  \<^verbatim>\<open>Buffer.subarray(start, end)\<close> and \<^verbatim>\<open>Buffer.subarray(start)\<close> on offsets that
  are not negative: both ends are clamped to the length, and the result is empty when
  the end is not after the start.
\<close>

definition subarray :: "string \<Rightarrow> nat \<Rightarrow> nat \<Rightarrow> string" where
  "subarray buf start end' = take (end' - start) (drop start buf)"

definition subarray_from :: "string \<Rightarrow> nat \<Rightarrow> string" where
  "subarray_from buf start = drop start buf"

text \<open>
  \<^verbatim>\<open>Buffer.toString()\<close> decodes the bytes as UTF-8, the way the Encoding standard
  describes it: the decoder holds the code point under construction, the number of
  continuation bytes seen and needed, and the range allowed for the next byte. A byte
  that cannot start or continue a sequence gives U+FFFD, and a byte that ends a
  sequence too early is read again as the start of the next one. \<open>utf8_lead\<close> is the
  step on a byte when no continuation byte is needed.
\<close>

record utf8_decoder =
  code_point :: nat
  bytes_seen :: nat
  bytes_needed :: nat
  lower_boundary :: nat
  upper_boundary :: nat

definition utf8_initial :: utf8_decoder where
  "utf8_initial = \<lparr>code_point = 0, bytes_seen = 0, bytes_needed = 0,
                    lower_boundary = 0x80, upper_boundary = 0xBF\<rparr>"

definition utf8_lead :: "nat \<Rightarrow> nat list \<times> utf8_decoder" where
  "utf8_lead b =
     (if b \<le> 0x7F then ([b], utf8_initial)
      else if 0xC2 \<le> b \<and> b \<le> 0xDF
      then ([], utf8_initial\<lparr>bytes_needed := 1, code_point := b mod 32\<rparr>)
      else if 0xE0 \<le> b \<and> b \<le> 0xEF
      then ([], utf8_initial\<lparr>bytes_needed := 2, code_point := b mod 16,
                   lower_boundary := (if b = 0xE0 then 0xA0 else 0x80),
                   upper_boundary := (if b = 0xED then 0x9F else 0xBF)\<rparr>)
      else if 0xF0 \<le> b \<and> b \<le> 0xF4
      then ([], utf8_initial\<lparr>bytes_needed := 3, code_point := b mod 8,
                   lower_boundary := (if b = 0xF0 then 0x90 else 0x80),
                   upper_boundary := (if b = 0xF4 then 0x8F else 0xBF)\<rparr>)
      else ([0xFFFD], utf8_initial))"

fun utf8_decode :: "utf8_decoder \<Rightarrow> nat list \<Rightarrow> nat list" where
  "utf8_decode d [] = (if bytes_needed d \<noteq> 0 then [0xFFFD] else [])"
| "utf8_decode d (b # rest) =
     (if bytes_needed d = 0
      then (case utf8_lead b of (out, d') \<Rightarrow> out @ utf8_decode d' rest)
      else if b < lower_boundary d \<or> upper_boundary d < b
      then (case utf8_lead b of (out, d') \<Rightarrow> 0xFFFD # out @ utf8_decode d' rest)
      else if bytes_seen d + 1 \<noteq> bytes_needed d
      then utf8_decode
             (d\<lparr>code_point := code_point d * 64 + b mod 64, bytes_seen := bytes_seen d + 1,
                lower_boundary := 0x80, upper_boundary := 0xBF\<rparr>) rest
      else (code_point d * 64 + b mod 64) # utf8_decode utf8_initial rest)"

text \<open>A code point as one code unit, or as a surrogate pair from U+10000 on.\<close>

definition utf16_units :: "nat \<Rightarrow> jsstring" where
  "utf16_units c =
     (if c < 0x10000 then [of_nat c]
      else [of_nat (0xD800 + (c - 0x10000) div 0x400),
            of_nat (0xDC00 + (c - 0x10000) mod 0x400)])"

definition Buffer_toString :: "string \<Rightarrow> jsstring" where
  "Buffer_toString buf =
     concat (map utf16_units (utf8_decode utf8_initial (map of_char buf)))"

text \<open>
  \<^verbatim>\<open>Buffer.from(s, 'utf-8')\<close> encodes the code points of the string as UTF-8: a
  surrogate pair is one code point, a surrogate without its partner is U+FFFD.
\<close>

definition high_surrogate :: "nat \<Rightarrow> bool" where
  "high_surrogate u = (0xD800 \<le> u \<and> u \<le> 0xDBFF)"

definition low_surrogate :: "nat \<Rightarrow> bool" where
  "low_surrogate u = (0xDC00 \<le> u \<and> u \<le> 0xDFFF)"

definition scalar_value :: "nat \<Rightarrow> nat" where
  "scalar_value u = (if high_surrogate u \<or> low_surrogate u then 0xFFFD else u)"

fun utf16_code_points :: "nat list \<Rightarrow> nat list" where
  "utf16_code_points [] = []"
| "utf16_code_points [u] = [scalar_value u]"
| "utf16_code_points (u # v # rest) =
     (if high_surrogate u \<and> low_surrogate v
      then (0x10000 + (u - 0xD800) * 0x400 + (v - 0xDC00)) # utf16_code_points rest
      else scalar_value u # utf16_code_points (v # rest))"

definition utf8_bytes :: "nat \<Rightarrow> nat list" where
  "utf8_bytes c =
     (if c < 0x80 then [c]
      else if c < 0x800 then [0xC0 + c div 64, 0x80 + c mod 64]
      else if c < 0x10000
      then [0xE0 + c div 4096, 0x80 + (c div 64) mod 64, 0x80 + c mod 64]
      else [0xF0 + c div 262144, 0x80 + (c div 4096) mod 64, 0x80 + (c div 64) mod 64,
            0x80 + c mod 64])"

definition Buffer_from :: "jsstring \<Rightarrow> string" where
  "Buffer_from s = map char_of (concat (map utf8_bytes (utf16_code_points (map unat s))))"

definition Buffer_concat :: "string list \<Rightarrow> string" where
  "Buffer_concat bufs = concat bufs"

subsection \<open>The policy interface and \<^verbatim>\<open>BasicFileExtensionTransform\<close>\<close>

text \<open>
  \<^verbatim>\<open>LocalImportTransform\<close> is an interface that the caller implements, so either
  method may throw: both return a sum.
\<close>

record LocalImportTransform =
  transform :: "jsstring \<Rightarrow> error + jsstring"
  isLocalFile :: "jsstring \<Rightarrow> error + bool"

record BasicFileExtensionTransform =
  localExt :: jsstring
  toExt :: jsstring

text \<open>The constructor; the second check throws the message of the first, as written.\<close>

definition new_BasicFileExtensionTransform ::
  "jsstring \<Rightarrow> jsstring \<Rightarrow> error + BasicFileExtensionTransform" where
  "new_BasicFileExtensionTransform optLocalExt optToExt =
     (if \<not> startsWith optLocalExt (js ''.'')
      then Inl (Error ''localExt must start with .'')
      else if \<not> startsWith optToExt (js ''.'')
      then Inl (Error ''localExt must start with .'')
      else Inr \<lparr>localExt = optLocalExt, toExt = optToExt\<rparr>)"

definition basic_transform :: "BasicFileExtensionTransform \<Rightarrow> jsstring \<Rightarrow> jsstring" where
  "basic_transform t v =
     substring v 0 (int (length v) - int (length (localExt t))) @ toExt t"

definition basic_isLocalFile :: "BasicFileExtensionTransform \<Rightarrow> jsstring \<Rightarrow> bool" where
  "basic_isLocalFile t v = endsWith v (localExt t)"

text \<open>The object seen through the interface; its two methods never throw.\<close>

definition basic_policy :: "BasicFileExtensionTransform \<Rightarrow> LocalImportTransform" where
  "basic_policy t =
     \<lparr>transform = (\<lambda>v. Inr (basic_transform t v)),
      isLocalFile = (\<lambda>v. Inr (basic_isLocalFile t v))\<rparr>"

subsection \<open>The instance state of \<^verbatim>\<open>ImportModifier\<close>\<close>

text \<open>
  An acorn \<^verbatim>\<open>Literal\<close> node: the offsets of the literal in the source text (the end
  is exclusive) and its value, which for a module source is a string.
\<close>

record Literal =
  start :: nat
  end' :: nat
  value' :: jsstring

datatype ecmaVersion = Version nat | Latest
datatype sourceType = Script | Module

record AcornOptions =
  ecmaVersion :: ecmaVersion
  sourceType :: sourceType

record ImportModifier =
  filePath :: string
  options :: AcornOptions
  localImportTransform :: LocalImportTransform
  substituteLiterals :: "Literal list"
  fileTransformed :: bool
  initialized :: bool

definition new_ImportModifier ::
  "string \<Rightarrow> AcornOptions \<Rightarrow> LocalImportTransform \<Rightarrow> ImportModifier" where
  "new_ImportModifier path opts pol =
     \<lparr>filePath = path, options = opts, localImportTransform = pol,
      substituteLiterals = [], fileTransformed = False, initialized = False\<rparr>"

subsection \<open>The file system\<close>

text \<open>
  The files by path, and the log of the calls made to \<^verbatim>\<open>fs/promises\<close> and to file
  handles, whether they fail or not. A call fails with the error the fault record
  holds for it; \<^verbatim>\<open>readFile\<close> and \<^verbatim>\<open>open\<close> with flag \<^verbatim>\<open>r+\<close> also fail on a path
  that has no file.
\<close>

datatype io_event =
  ReadFile string | Open string | HandleRead string | HandleWrite string string | Close string

record fs =
  files :: "string \<rightharpoonup> string"
  log :: "io_event list"

record io_faults =
  readFile_error :: "error option"
  open_error :: "error option"
  handle_readFile_error :: "error option"
  handle_writeFile_error :: "error option"
  close_error :: "error option"

definition no_faults :: io_faults where
  "no_faults = \<lparr>readFile_error = None, open_error = None, handle_readFile_error = None,
                handle_writeFile_error = None, close_error = None\<rparr>"

record FileHandle =
  handle_path :: string
  position :: nat

definition record_event :: "io_event \<Rightarrow> fs \<Rightarrow> fs" where
  "record_event ev s = s\<lparr>log := log s @ [ev]\<rparr>"


definition fs_open :: "io_faults \<Rightarrow> string \<Rightarrow> fs \<Rightarrow> (error + FileHandle) \<times> fs" where
  "fs_open flt path s =
     (let s' = record_event (Open path) s
      in case open_error flt of
           Some e \<Rightarrow> (Inl e, s')
         | None \<Rightarrow> (case files s path of
                      None \<Rightarrow> (Inl (SystemError ''ENOENT''), s')
                    | Some content \<Rightarrow> (Inr \<lparr>handle_path = path, position = 0\<rparr>, s')))"

text \<open>
  \<^verbatim>\<open>filehandle.readFile()\<close> reads from the current position of the handle to the end
  of the file and leaves the position there.
\<close>

definition handle_readFile ::
  "io_faults \<Rightarrow> FileHandle \<Rightarrow> fs \<Rightarrow> (error + string) \<times> FileHandle \<times> fs" where
  "handle_readFile flt h s =
     (let s' = record_event (HandleRead (handle_path h)) s
      in case handle_readFile_error flt of
           Some e \<Rightarrow> (Inl e, h, s')
         | None \<Rightarrow> (case files s (handle_path h) of
                      None \<Rightarrow> (Inl (SystemError ''EBADF''), h, s')
                    | Some content \<Rightarrow>
                        (Inr (drop (position h) content), h\<lparr>position := max (position h) (length content)\<rparr>, s')))"

text \<open>
  \<^verbatim>\<open>filehandle.writeFile(data)\<close> writes the data at the current position of the
  handle, over what the file holds there, and moves the position past it. A write that
  fails is taken to leave the file as it was.
\<close>

definition handle_writeFile ::
  "io_faults \<Rightarrow> FileHandle \<Rightarrow> string \<Rightarrow> fs \<Rightarrow> (error + unit) \<times> FileHandle \<times> fs" where
  "handle_writeFile flt h data s =
     (let s' = record_event (HandleWrite (handle_path h) data) s
      in case handle_writeFile_error flt of
           Some e \<Rightarrow> (Inl e, h, s')
         | None \<Rightarrow> (case files s (handle_path h) of
                      None \<Rightarrow> (Inl (SystemError ''EBADF''), h, s')
                    | Some content \<Rightarrow>
                        (Inr (),
                         h\<lparr>position := position h + length data\<rparr>,
                         s'\<lparr>files := (files s')(handle_path h \<mapsto>
                               take (position h) content @ data
                               @ drop (position h + length data) content)\<rparr>)))"

definition handle_close :: "io_faults \<Rightarrow> FileHandle \<Rightarrow> fs \<Rightarrow> (error + unit) \<times> fs" where
  "handle_close flt h s =
     (let s' = record_event (Close (handle_path h)) s
      in case close_error flt of Some e \<Rightarrow> (Inl e, s') | None \<Rightarrow> (Inr (), s'))"

definition writes :: "fs \<Rightarrow> nat" where
  "writes s = length (filter (\<lambda>ev. case ev of HandleWrite p d \<Rightarrow> True | _ \<Rightarrow> False) (log s))"

subsection \<open>\<^verbatim>\<open>init\<close> and \<^verbatim>\<open>getImportsToModify\<close>\<close>






definition initGuard :: "ImportModifier \<Rightarrow> error + unit" where
  "initGuard m =
     (if \<not> initialized m then Inl (Error ''Must initialize ImportModifier before use'')
      else Inr ())"

subsection \<open>\<^verbatim>\<open>replace\<close>\<close>

text \<open>The two locals that the loop of \<^verbatim>\<open>replace\<close> updates.\<close>

record splice =
  lastSplitIdx :: nat
  splitBuffers :: "string list"

text \<open>The body of the \<^verbatim>\<open>forEach\<close> callback.\<close>

definition replace_literal ::
  "ImportModifier \<Rightarrow> string \<Rightarrow> splice \<Rightarrow> Literal \<Rightarrow> error + splice" where
  "replace_literal m fileBuffer st literal =
     (let pushed = splitBuffers st @ [subarray fileBuffer (lastSplitIdx st) (start literal)];
          literalStr = Buffer_toString (subarray fileBuffer (start literal) (end' literal));
          firstChar = charAt literalStr 0
      in if firstChar = js [sq] \<or> firstChar = js [dq] then
           (let innerText = substring literalStr 1 (int (length literalStr) - 1)
            in case transform (localImportTransform m) innerText of
                 Inl e \<Rightarrow> Inl e
               | Inr t \<Rightarrow>
                   Inr \<lparr>lastSplitIdx = end' literal + 1,
                        splitBuffers = pushed @ [Buffer_from (firstChar @ t @ firstChar)]\<rparr>)
         else
           (case transform (localImportTransform m) literalStr of
              Inl e \<Rightarrow> Inl e
            | Inr t \<Rightarrow>
                Inr \<lparr>lastSplitIdx = end' literal + 1,
                     splitBuffers = pushed @ [Buffer_from t]\<rparr>))"

fun replace_forEach ::
  "ImportModifier \<Rightarrow> string \<Rightarrow> splice \<Rightarrow> Literal list \<Rightarrow> error + splice" where
  "replace_forEach m fileBuffer st [] = Inr st"
| "replace_forEach m fileBuffer st (literal # rest) =
     (case replace_literal m fileBuffer st literal of
        Inl e \<Rightarrow> Inl e
      | Inr st' \<Rightarrow> replace_forEach m fileBuffer st' rest)"

definition replace :: "ImportModifier \<Rightarrow> string \<Rightarrow> error + string" where
  "replace m fileBuffer =
     (case replace_forEach m fileBuffer \<lparr>lastSplitIdx = 0, splitBuffers = []\<rparr>
             (substituteLiterals m) of
        Inl e \<Rightarrow> Inl e
      | Inr st \<Rightarrow>
          Inr (Buffer_concat
                 (if lastSplitIdx st \<noteq> length fileBuffer
                  then splitBuffers st @ [subarray_from fileBuffer (lastSplitIdx st)]
                  else splitBuffers st)))"

subsection \<open>\<^verbatim>\<open>modifyToFile\<close>, \<^verbatim>\<open>modifyToBuffer\<close> and \<^verbatim>\<open>localImports\<close>\<close>

text \<open>
  In both methods the \<^verbatim>\<open>finally\<close> block closes the handle when one was opened, and
  an error of \<^verbatim>\<open>close\<close> replaces the outcome of the \<^verbatim>\<open>try\<close> block.
\<close>

definition modifyToFile ::
  "io_faults \<Rightarrow> ImportModifier \<Rightarrow> fs \<Rightarrow> (error + unit) \<times> ImportModifier \<times> fs" where
  "modifyToFile flt m s =
     (case initGuard m of
        Inl e \<Rightarrow> (Inl e, m, s)
      | Inr g \<Rightarrow>
          if fileTransformed m
          then (Inl (Error (''modifyFile already called on '' @ filePath m)), m, s)
          else
            (case fs_open flt (filePath m) s of
               (Inl e, s1) \<Rightarrow> (Inl e, m, s1)
             | (Inr filehandle, s1) \<Rightarrow>
                 (let (tried, h2, s2) =
                        (case handle_readFile flt filehandle s1 of
                           (Inl e, h', s') \<Rightarrow> (Inl e, h', s')
                         | (Inr fileBuffer, h', s') \<Rightarrow>
                             (case replace m fileBuffer of
                                Inl e \<Rightarrow> (Inl e, h', s')
                              | Inr out \<Rightarrow> handle_writeFile flt h' out s'));
                      (closed, s3) = handle_close flt h2 s2
                  in case closed of
                       Inl e \<Rightarrow> (Inl e, m, s3)
                     | Inr c \<Rightarrow>
                         (case tried of
                            Inl e \<Rightarrow> (Inl e, m, s3)
                          | Inr w \<Rightarrow> (Inr (), m\<lparr>fileTransformed := True\<rparr>, s3)))))"

definition modifyToBuffer ::
  "io_faults \<Rightarrow> ImportModifier \<Rightarrow> fs \<Rightarrow> (error + string) \<times> ImportModifier \<times> fs" where
  "modifyToBuffer flt m s =
     (case initGuard m of
        Inl e \<Rightarrow> (Inl e, m, s)
      | Inr g \<Rightarrow>
          (case fs_open flt (filePath m) s of
             (Inl e, s1) \<Rightarrow> (Inl e, m, s1)
           | (Inr filehandle, s1) \<Rightarrow>
               (let (tried, h2, s2) =
                      (case handle_readFile flt filehandle s1 of
                         (Inl e, h', s') \<Rightarrow> (Inl e, h', s')
                       | (Inr fileBuffer, h', s') \<Rightarrow> (replace m fileBuffer, h', s'));
                    (closed, s3) = handle_close flt h2 s2
                in case closed of
                     Inl e \<Rightarrow> (Inl e, m, s3)
                   | Inr c \<Rightarrow> (tried, m, s3))))"

definition localImports :: "ImportModifier \<Rightarrow> error + Literal list" where
  "localImports m =
     (case initGuard m of Inl e \<Rightarrow> Inl e | Inr g \<Rightarrow> Inr (substituteLiterals m))"

text \<open>Calling \<^verbatim>\<open>modifyToBuffer\<close> once for each fault record of a list, results dropped.\<close>

fun modifyToBuffer_each ::
  "io_faults list \<Rightarrow> ImportModifier \<Rightarrow> fs \<Rightarrow> ImportModifier \<times> fs" where
  "modifyToBuffer_each [] m s = (m, s)"
| "modifyToBuffer_each (flt # rest) m s =
     (case modifyToBuffer flt m s of (r, m', s') \<Rightarrow> modifyToBuffer_each rest m' s')"

subsection \<open>The length the specification gives for the output\<close>

text \<open>
  Written from the specification, to compare \<open>replace\<close> with: the replacement of a
  literal is the quote character, when the span starts with one, the transformed inner
  text and the quote character again, or else the transformed span; the length of the
  output is the length of the original plus, for every literal of the plan, the length
  of its replacement minus the length of its span.
\<close>

definition spec_replacement :: "LocalImportTransform \<Rightarrow> string \<Rightarrow> error + string" where
  "spec_replacement pol rawText =
     (case rawText of
        [] \<Rightarrow> map_sum id Buffer_from (transform pol (Buffer_toString rawText))
      | q # rest \<Rightarrow>
          if q = sq \<or> q = dq
          then (case transform pol (Buffer_toString (butlast rest)) of
                  Inl e \<Rightarrow> Inl e
                | Inr t \<Rightarrow> Inr (q # Buffer_from t @ [q]))
          else map_sum id Buffer_from (transform pol (Buffer_toString rawText)))"

fun spec_length_change :: "LocalImportTransform \<Rightarrow> string \<Rightarrow> Literal list \<Rightarrow> error + int" where
  "spec_length_change pol buf [] = Inr 0"
| "spec_length_change pol buf (literal # rest) =
     (case spec_replacement pol (subarray buf (start literal) (end' literal)) of
        Inl e \<Rightarrow> Inl e
      | Inr r \<Rightarrow>
          (case spec_length_change pol buf rest of
             Inl e \<Rightarrow> Inl e
           | Inr d \<Rightarrow>
               Inr (int (length r)
                    - int (length (subarray buf (start literal) (end' literal))) + d)))"

definition spec_length :: "ImportModifier \<Rightarrow> string \<Rightarrow> error + int" where
  "spec_length m buf =
     (case spec_length_change (localImportTransform m) buf (substituteLiterals m) of
        Inl e \<Rightarrow> Inl e
      | Inr d \<Rightarrow> Inr (int (length buf) + d))"

subsection \<open>The inputs of the examples\<close>

text \<open>The policy and the parser options that \<^verbatim>\<open>main\<close> builds.\<close>

definition js_to_mjs :: LocalImportTransform where
  "js_to_mjs = basic_policy \<lparr>localExt = js ''.js'', toExt = js ''.mjs''\<rparr>"

definition main_options :: AcornOptions where
  "main_options = \<lparr>ecmaVersion = Version 6, sourceType = Module\<rparr>"

text \<open>
  The source text \<^verbatim>\<open>import x from './a.js'\<close>, of 22 characters, the same text followed
  by a semicolon, and the same text with double quotes. In each the literal is at
  offsets 14 to 22.
\<close>

definition import_x :: string where
  "import_x = ''import x from '' @ [sq] @ ''./a.js'' @ [sq]"

definition import_x_semicolon :: string where
  "import_x_semicolon = ''import x from '' @ [sq] @ ''./a.js'' @ [sq] @ '';''"


definition a_js :: Literal where
  "a_js = \<lparr>start = 14, end' = 22, value' = js ''./a.js''\<rparr>"

text \<open>
  Two import declarations, each on a line of its own that a line feed ends: 46
  characters, the literals at offsets 14 to 22 and 37 to 45.
\<close>

definition two_imports :: string where
  "two_imports = ''import a from '' @ [sq] @ ''./a.js'' @ [sq, CHR 0x0A]
               @ ''import b from '' @ [sq] @ ''./b.js'' @ [sq, CHR 0x0A]"

definition b_js :: Literal where
  "b_js = \<lparr>start = 37, end' = 45, value' = js ''./b.js''\<rparr>"

text \<open>An instance as a successful \<open>init\<close> leaves it, with the literals it found.\<close>

definition scanned :: "Literal list \<Rightarrow> ImportModifier" where
  "scanned literals =
     (new_ImportModifier ''index.js'' main_options js_to_mjs)
       \<lparr>substituteLiterals := literals, initialized := True\<rparr>"

definition disk :: "string \<Rightarrow> fs" where
  "disk content = \<lparr>files = [''index.js'' \<mapsto> content], log = []\<rparr>"


text \<open>The faults of a call in which only the write of the handle fails.\<close>

definition write_fails :: io_faults where
  "write_fails = no_faults\<lparr>handle_writeFile_error := Some (SystemError ''ENOSPC'')\<rparr>"

text \<open>The source text \<^verbatim>\<open>import x from 'left-pad'\<close>, which has no local import.\<close>

definition import_left_pad :: string where
  "import_left_pad = ''import x from '' @ [sq] @ ''left-pad'' @ [sq]"

text \<open>
  The source text \<^verbatim>\<open>import x from './e.js'\<close> with an acute accent on the \<open>e\<close>: 22
  characters and 23 bytes, the accented letter being the two bytes C3 A9 and the one
  code unit E9. acorn counts characters, so the literal is at offsets 14 to 22.
\<close>

definition import_e_acute :: string where
  "import_e_acute = ''import x from '' @ [sq] @ ''./'' @ [CHR 0xC3, CHR 0xA9] @ ''.js'' @ [sq]"

definition e_acute_js :: Literal where
  "e_acute_js = \<lparr>start = 14, end' = 22, value' = js ''./'' @ [0xE9] @ js ''.js''\<rparr>"

subsection \<open>The extension policy\<close>

lemma endsWith_iff: "endsWith s x \<longleftrightarrow> (\<exists>p. s = p @ x)"
proof
  assume "endsWith s x"
  then have le: "length x \<le> length s" and d: "drop (length s - length x) s = x"
    by (auto simp: endsWith_def Let_def nat_diff_distrib' split: if_splits)
  have "s = take (length s - length x) s @ drop (length s - length x) s"
    by simp
  with d show "\<exists>p. s = p @ x" by metis
next
  assume "\<exists>p. s = p @ x"
  then obtain p where "s = p @ x" ..
  then show "endsWith s x"
    by (simp add: endsWith_def Let_def)
qed

lemma basic_transform_append:
  "basic_transform t (p @ localExt t) = p @ toExt t"
  by (simp add: basic_transform_def substring_def Let_def)

text \<open>
  C8. For the extension policy built by the constructor from a local suffix and a target
  suffix, \<open>isLocalFile\<close> holds of a path exactly when the path ends with the local
  suffix, and \<open>transform\<close> of a path that ends with the local suffix is the path with
  that suffix replaced by the target suffix, the characters before it unchanged.
\<close>

theorem basic_policy_suffix:
  assumes "new_BasicFileExtensionTransform l t = Inr pol"
  shows "(basic_isLocalFile pol v \<longleftrightarrow> (\<exists>p. v = p @ l))
       \<and> (\<forall>p. basic_transform pol (p @ l) = p @ t)
       \<and> isLocalFile (basic_policy pol) v = Inr (\<exists>p. v = p @ l)
       \<and> (\<forall>p. transform (basic_policy pol) (p @ l) = Inr (p @ t))"
proof -
  from assms have l: "localExt pol = l" and t: "toExt pol = t"
    by (auto simp: new_BasicFileExtensionTransform_def split: if_splits)
  have a: "basic_isLocalFile pol v \<longleftrightarrow> (\<exists>p. v = p @ l)"
    by (simp add: basic_isLocalFile_def endsWith_iff l)
  have b: "basic_transform pol (p @ l) = p @ t" for p
    using basic_transform_append [of pol p] by (simp add: l t)
  show ?thesis
    using a b by (simp add: basic_policy_def)
qed

theorem basic_policy_suffix_witness:
  "new_BasicFileExtensionTransform (js ''.js'') (js ''.mjs'')
     = Inr \<lparr>localExt = js ''.js'', toExt = js ''.mjs''\<rparr>
   \<and> basic_isLocalFile \<lparr>localExt = js ''.js'', toExt = js ''.mjs''\<rparr> (js ''./a.js'')
   \<and> basic_transform \<lparr>localExt = js ''.js'', toExt = js ''.mjs''\<rparr> (js ''./a'' @ js ''.js'')
       = js ''./a'' @ js ''.mjs''"
proof -
  have h: "new_BasicFileExtensionTransform (js ''.js'') (js ''.mjs'')
             = Inr \<lparr>localExt = js ''.js'', toExt = js ''.mjs''\<rparr>"
    by (simp add: new_BasicFileExtensionTransform_def startsWith_def js_def)
  have e: "\<exists>p. js ''./a.js'' = p @ js ''.js''"
    by (rule exI [of _ "js ''./a''"]) (simp add: js_def)
  from basic_policy_suffix [OF h, of "js ''./a.js''"] e h show ?thesis
    by blast
qed

subsection \<open>The splicer\<close>

lemmas utf8_defs = Buffer_toString_def utf8_lead_def utf8_initial_def utf16_units_def
  Buffer_from_def utf8_bytes_def scalar_value_def high_surrogate_def low_surrogate_def
  js_def char_of_eq_iff

lemmas splice_defs = replace_def replace_literal_def substring_def charAt_def subarray_def
  subarray_from_def Buffer_concat_def utf8_defs

lemmas example_defs = scanned_def new_ImportModifier_def js_to_mjs_def basic_policy_def
  basic_transform_def basic_isLocalFile_def endsWith_def a_js_def b_js_def main_options_def

text \<open>After a literal the cursor is one past the literal's end offset.\<close>

lemma replace_literal_cursor:
  "replace_literal m buf st literal = Inr st' \<Longrightarrow> lastSplitIdx st' = end' literal + 1"
  by (auto simp: replace_literal_def Let_def split: if_splits sum.splits)

text \<open>
  On the text of the specification's example the literal ends the buffer, and the
  output is the expected one.
\<close>

lemma replace_import_x:
  "replace (scanned [a_js]) import_x = Inr (''import x from '' @ [sq] @ ''./a.mjs'' @ [sq])"
  by (simp add: splice_defs example_defs import_x_def Let_def)

text \<open>
  C1. The claim: the output of \<open>replace\<close> keeps every byte of the original outside the
  literal spans, the cursor moving to exactly the end offset of each literal. The code
  moves the cursor to the end offset plus one, so the byte after a literal is lost: for
  \<^verbatim>\<open>import x from './a.js';\<close> with the literal at offsets 14 to 22 the output is
  \<^verbatim>\<open>import x from './a.mjs'\<close>, without the semicolon.
\<close>

theorem replace_loses_byte_after_literal:
  "replace (scanned [a_js]) import_x_semicolon
     = Inr (''import x from '' @ [sq] @ ''./a.mjs'' @ [sq])"
  by (simp add: splice_defs example_defs import_x_semicolon_def Let_def)

text \<open>
  C2. The claim: the output is as long as the original plus, for each literal, the
  length of its replacement minus the length of its span. For the two import lines of
  \<open>two_imports\<close> (46 bytes, each replacement one byte longer than its span) that
  length is 48; the output of \<open>replace\<close> has 46 bytes, the line feed after each
  literal being lost.
\<close>

theorem replace_length_two_imports:
  "map_sum id length (replace (scanned [a_js, b_js]) two_imports) = Inr 46
   \<and> spec_length (scanned [a_js, b_js]) two_imports = Inr 48"
  by (simp add: splice_defs example_defs two_imports_def Let_def spec_length_def
      spec_replacement_def)













text \<open>
  The same on a span that is not ASCII. The offsets of \<open>e_acute_js\<close> count characters,
  so as byte offsets they end one byte early: the span is the opening quote and
  \<^verbatim>\<open>./e.js\<close> (accented) without the closing quote. The inner text loses the \<open>s\<close>,
  the transform cuts three code units off and appends \<^verbatim>\<open>.mjs\<close>, and the closing
  quote of the original is the byte that the cursor skips.
\<close>

lemma replace_import_e_acute:
  "replace (scanned [e_acute_js]) import_e_acute
     = Inr (''import x from '' @ [sq] @ ''./.mjs'' @ [sq])"
  by (simp add: splice_defs example_defs e_acute_js_def import_e_acute_def Let_def)

subsection \<open>The guards of the instance\<close>

lemmas io_defs = fs_open_def handle_readFile_def handle_writeFile_def handle_close_def
  record_event_def

lemma modifyToFile_success:
  assumes "modifyToFile flt m s = (Inr (), m1, s1)"
  shows "initialized m \<and> \<not> fileTransformed m \<and> m1 = m\<lparr>fileTransformed := True\<rparr>
       \<and> (\<exists>buf out. files s (filePath m) = Some buf \<and> replace m buf = Inr out
            \<and> files s1 = (files s)(filePath m \<mapsto> buf @ out)
            \<and> log s1 = log s @ [Open (filePath m), HandleRead (filePath m),
                 HandleWrite (filePath m) out, Close (filePath m)])"
  using assms
  by (auto simp: modifyToFile_def initGuard_def io_defs Let_def
      split: if_splits sum.splits option.splits prod.splits)

lemma modifyToFile_failure:
  assumes "modifyToFile flt m s = (Inl e, m1, s1)"
  shows "m1 = m"
  using assms
  by (auto simp: modifyToFile_def initGuard_def Let_def
      split: if_splits sum.splits option.splits prod.splits)

lemma modifyToFile_opens:
  assumes "initialized m" "\<not> fileTransformed m"
  shows "\<exists>evs. log (snd (snd (modifyToFile flt m s))) = log s @ Open (filePath m) # evs"
  using assms
  by (auto simp: modifyToFile_def initGuard_def io_defs Let_def
      split: if_splits sum.splits option.splits prod.splits)

lemma modifyToFile_succeeds:
  assumes "initialized m" "\<not> fileTransformed m" "files s (filePath m) = Some buf"
    "replace m buf = Inr out"
  shows "fst (modifyToFile no_faults m s) = Inr ()"
  using assms
  by (auto simp: modifyToFile_def initGuard_def io_defs Let_def no_faults_def
      split: if_splits sum.splits option.splits prod.splits)

text \<open>The steps at which \<open>modifyToFile\<close> fails once its guards are passed.\<close>

lemma modifyToFile_open_fails:
  assumes "initialized m" "\<not> fileTransformed m" "open_error flt = Some e"
  shows "modifyToFile flt m s = (Inl e, m, record_event (Open (filePath m)) s)"
  using assms by (simp add: modifyToFile_def initGuard_def fs_open_def Let_def)

lemma modifyToFile_read_fails:
  assumes "initialized m" "\<not> fileTransformed m" "open_error flt = None"
    "files s (filePath m) = Some buf" "handle_readFile_error flt = Some e"
    "close_error flt = None"
  shows "fst (modifyToFile flt m s) = Inl e"
  using assms by (simp add: modifyToFile_def initGuard_def io_defs Let_def)

lemma modifyToFile_splice_fails:
  assumes "initialized m" "\<not> fileTransformed m" "files s (filePath m) = Some buf"
    "replace m buf = Inl e"
  shows "fst (modifyToFile no_faults m s) = Inl e
       \<and> writes (snd (snd (modifyToFile no_faults m s))) = writes s"
  using assms
  by (simp add: modifyToFile_def initGuard_def io_defs Let_def no_faults_def writes_def)

lemma modifyToFile_write_fails:
  assumes "initialized m" "\<not> fileTransformed m" "open_error flt = None"
    "files s (filePath m) = Some buf" "handle_readFile_error flt = None"
    "replace m buf = Inr out" "handle_writeFile_error flt = Some e"
    "close_error flt = None"
  shows "fst (modifyToFile flt m s) = Inl e"
  using assms by (simp add: modifyToFile_def initGuard_def io_defs Let_def)

lemma modifyToBuffer_once:
  assumes "modifyToBuffer flt m s = (r, m1, s1)"
  shows "m1 = m \<and> files s1 = files s \<and> writes s1 = writes s"
  using assms
  by (auto simp: modifyToBuffer_def initGuard_def io_defs Let_def writes_def
      split: if_splits sum.splits option.splits prod.splits)

lemma modifyToBuffer_succeeds:
  assumes "initialized m" "files s (filePath m) = Some buf"
  shows "fst (modifyToBuffer no_faults m s) = replace m buf"
  using assms
  by (auto simp: modifyToBuffer_def initGuard_def io_defs Let_def no_faults_def
      split: if_splits sum.splits option.splits prod.splits)

lemma scanned_fields:
  "initialized (scanned ls)" "\<not> fileTransformed (scanned ls)"
  "filePath (scanned ls) = ''index.js''" "substituteLiterals (scanned ls) = ls"
  by (simp_all add: scanned_def new_ImportModifier_def)

lemma disk_file: "files (disk content) ''index.js'' = Some content"
  by (simp add: disk_def)

text \<open>
  C4. On an instance that is not initialized, \<open>modifyToBuffer\<close> and \<open>modifyToFile\<close>
  fail with the error of \<open>initGuard\<close>, whatever the file, the policy and the faults,
  and leave the instance and the file system as they were: the log of I/O calls does
  not grow.
\<close>

theorem guard_before_init:
  assumes "\<not> initialized m"
  shows "modifyToFile flt m s = (Inl (Error ''Must initialize ImportModifier before use''), m, s)
       \<and> modifyToBuffer flt m s
           = (Inl (Error ''Must initialize ImportModifier before use''), m, s)"
  using assms by (simp add: modifyToFile_def modifyToBuffer_def initGuard_def)

theorem guard_before_init_witness:
  "\<not> initialized (new_ImportModifier ''index.js'' main_options js_to_mjs)
   \<and> modifyToFile no_faults (new_ImportModifier ''index.js'' main_options js_to_mjs)
        (disk import_x)
       = (Inl (Error ''Must initialize ImportModifier before use''),
          new_ImportModifier ''index.js'' main_options js_to_mjs, disk import_x)
   \<and> modifyToBuffer no_faults (new_ImportModifier ''index.js'' main_options js_to_mjs)
        (disk import_x)
       = (Inl (Error ''Must initialize ImportModifier before use''),
          new_ImportModifier ''index.js'' main_options js_to_mjs, disk import_x)"
proof -
  have h: "\<not> initialized (new_ImportModifier ''index.js'' main_options js_to_mjs)"
    by (simp add: new_ImportModifier_def)
  from h guard_before_init [OF h, of no_faults "disk import_x"] show ?thesis
    by (rule conjI)
qed

text \<open>
  C3. After a call of \<open>modifyToFile\<close> that succeeded, a second call on the same
  instance fails with the error \<^verbatim>\<open>modifyFile already called on <path>\<close> and leaves
  the instance and the file system as the first call left them. So over both calls
  the file is modified exactly once, by the first: its one write puts the output of
  \<open>replace\<close> on the file, at the position where the read left the handle, which is
  after the bytes read; no other file changes, and the calls made are one open, one
  read, one write and one close.
\<close>

theorem modifyToFile_twice:
  assumes "modifyToFile flt m s = (Inr (), m1, s1)"
  shows "modifyToFile flt' m1 s1
           = (Inl (Error (''modifyFile already called on '' @ filePath m)), m1, s1)
       \<and> writes s1 = writes s + 1
       \<and> (\<exists>buf out. files s (filePath m) = Some buf \<and> replace m buf = Inr out
            \<and> files s1 = (files s)(filePath m \<mapsto> buf @ out)
            \<and> log s1 = log s @ [Open (filePath m), HandleRead (filePath m),
                 HandleWrite (filePath m) out, Close (filePath m)])"
proof -
  from modifyToFile_success [OF assms] obtain buf out where
    i: "initialized m" and m1: "m1 = m\<lparr>fileTransformed := True\<rparr>"
    and f: "files s (filePath m) = Some buf" "replace m buf = Inr out"
      "files s1 = (files s)(filePath m \<mapsto> buf @ out)"
    and l: "log s1 = log s @ [Open (filePath m), HandleRead (filePath m),
                 HandleWrite (filePath m) out, Close (filePath m)]"
    by blast
  have a: "modifyToFile flt' m1 s1
           = (Inl (Error (''modifyFile already called on '' @ filePath m)), m1, s1)"
    using i m1 by (simp add: modifyToFile_def initGuard_def)
  have b: "writes s1 = writes s + 1"
    using l by (simp add: writes_def)
  from a b f l show ?thesis by blast
qed

theorem modifyToFile_twice_witness:
  "fst (modifyToFile no_faults (scanned [a_js]) (disk import_x)) = Inr ()
   \<and> (case modifyToFile no_faults (scanned [a_js]) (disk import_x) of
        (r, m1, s1) \<Rightarrow>
          modifyToFile no_faults m1 s1
            = (Inl (Error (''modifyFile already called on '' @ ''index.js'')), m1, s1)
          \<and> writes s1 = 1
          \<and> files s1
              = [''index.js'' \<mapsto> import_x @ ''import x from '' @ [sq] @ ''./a.mjs'' @ [sq]]
          \<and> log s1 = [Open ''index.js'', HandleRead ''index.js'',
                 HandleWrite ''index.js'' (''import x from '' @ [sq] @ ''./a.mjs'' @ [sq]),
                 Close ''index.js''])"
proof -
  have ok: "fst (modifyToFile no_faults (scanned [a_js]) (disk import_x)) = Inr ()"
    using modifyToFile_succeeds [of "scanned [a_js]" "disk import_x" import_x
        "''import x from '' @ [sq] @ ''./a.mjs'' @ [sq]"]
    by (simp add: scanned_fields disk_file replace_import_x)
  then obtain m1 s1 where
    h: "modifyToFile no_faults (scanned [a_js]) (disk import_x) = (Inr (), m1, s1)"
    by (cases "modifyToFile no_faults (scanned [a_js]) (disk import_x)") auto
  have w: "writes (disk import_x) = 0"
    by (simp add: writes_def disk_def)
  have d: "files (disk import_x) = [''index.js'' \<mapsto> import_x]" "log (disk import_x) = []"
    by (simp_all add: disk_def)
  from modifyToFile_twice [OF h, of no_faults] ok show ?thesis
    unfolding h by (auto simp add: scanned_fields w d replace_import_x)
qed

text \<open>
  C9. When \<open>modifyToFile\<close> has passed its two guards and then fails, at the open, the
  read, the splice, the write or the close, the instance is as it was: the flag
  \<open>fileTransformed\<close> is still unset, and the next call of \<open>modifyToFile\<close> is not
  refused by the guard but goes on to open the file.
\<close>

theorem failed_modifyToFile_keeps_flag:
  assumes "initialized m" and "\<not> fileTransformed m"
    and "modifyToFile flt m s = (Inl e, m1, s1)"
  shows "m1 = m \<and> \<not> fileTransformed m1
       \<and> (\<exists>evs. log (snd (snd (modifyToFile flt' m1 s1)))
                  = log s1 @ Open (filePath m1) # evs)"
proof -
  have same: "m1 = m"
    using modifyToFile_failure [OF assms(3)] .
  from modifyToFile_opens [OF assms(1,2), of flt' s1] same assms(2) show ?thesis
    by simp
qed

theorem failed_modifyToFile_keeps_flag_witness:
  "initialized (scanned [a_js]) \<and> \<not> fileTransformed (scanned [a_js])
   \<and> fst (modifyToFile write_fails (scanned [a_js]) (disk import_x))
       = Inl (SystemError ''ENOSPC'')
   \<and> (case modifyToFile write_fails (scanned [a_js]) (disk import_x) of
        (r, m1, s1) \<Rightarrow>
          m1 = scanned [a_js] \<and> \<not> fileTransformed m1
          \<and> (\<exists>evs. log (snd (snd (modifyToFile no_faults m1 s1)))
                     = log s1 @ Open (filePath m1) # evs))"
proof -
  have f: "fst (modifyToFile write_fails (scanned [a_js]) (disk import_x))
             = Inl (SystemError ''ENOSPC'')"
    by (simp add: modifyToFile_def initGuard_def io_defs write_fails_def no_faults_def
        scanned_fields disk_def replace_import_x Let_def)
  then obtain m1 s1 where
    h: "modifyToFile write_fails (scanned [a_js]) (disk import_x)
          = (Inl (SystemError ''ENOSPC''), m1, s1)"
    by (cases "modifyToFile write_fails (scanned [a_js]) (disk import_x)") auto
  from failed_modifyToFile_keeps_flag [OF scanned_fields(1,2) h, of no_faults] f
  show ?thesis
    unfolding h by (auto simp add: scanned_fields)
qed

lemma modifyToBuffer_each_frame:
  "modifyToBuffer_each flts m s = (m', s') \<Longrightarrow>
     m' = m \<and> files s' = files s \<and> writes s' = writes s"
proof (induction flts arbitrary: m s)
  case Nil
  then show ?case by simp
next
  case (Cons flt flts)
  obtain r m1 s1 where 1: "modifyToBuffer flt m s = (r, m1, s1)"
    by (cases "modifyToBuffer flt m s")
  with Cons.prems have 2: "modifyToBuffer_each flts m1 s1 = (m', s')"
    by simp
  from modifyToBuffer_once [OF 1] Cons.IH [OF 2] show ?case
    by simp
qed

text \<open>
  C10. \<open>modifyToBuffer\<close> changes nothing of the instance, so neither the flag
  \<open>fileTransformed\<close> nor the cached literals, and nothing of the files: after any
  number of calls, failed or not, a call of \<open>modifyToFile\<close> without faults succeeds
  where it would have succeeded before them, and one more call of \<open>modifyToBuffer\<close>
  without faults still returns the output of \<open>replace\<close> on the bytes of the file. The
  getter \<open>localImports\<close> fails with the error of \<open>initGuard\<close> before initialization
  and gives the cached literals after.
\<close>

theorem modifyToBuffer_changes_nothing:
  assumes "modifyToBuffer_each flts m s = (m', s')"
  shows "m' = m \<and> files s' = files s \<and> writes s' = writes s
       \<and> (initialized m \<and> \<not> fileTransformed m \<and> files s (filePath m) = Some buf
            \<and> replace m buf = Inr out
          \<longrightarrow> fst (modifyToFile no_faults m' s') = Inr ())
       \<and> (initialized m \<and> files s (filePath m) = Some buf
          \<longrightarrow> fst (modifyToBuffer no_faults m' s') = replace m buf)
       \<and> localImports m
           = (if initialized m then Inr (substituteLiterals m)
              else Inl (Error ''Must initialize ImportModifier before use''))"
proof -
  have frame: "m' = m \<and> files s' = files s \<and> writes s' = writes s"
    using modifyToBuffer_each_frame [OF assms] .
  have again: "fst (modifyToBuffer no_faults m' s') = replace m buf"
    if "initialized m" "files s (filePath m) = Some buf"
    using modifyToBuffer_succeeds [of m s' buf] that frame by simp
  have later: "fst (modifyToFile no_faults m' s') = Inr ()"
    if "initialized m" "\<not> fileTransformed m" "files s (filePath m) = Some buf"
      "replace m buf = Inr out"
    using modifyToFile_succeeds [of m s' buf out] that frame by simp
  have getter: "localImports m
           = (if initialized m then Inr (substituteLiterals m)
              else Inl (Error ''Must initialize ImportModifier before use''))"
    by (simp add: localImports_def initGuard_def)
  from frame later again getter show ?thesis by blast
qed

theorem modifyToBuffer_changes_nothing_witness:
  "initialized (scanned [a_js]) \<and> \<not> fileTransformed (scanned [a_js])
   \<and> files (disk import_x) (filePath (scanned [a_js])) = Some import_x
   \<and> replace (scanned [a_js]) import_x = Inr (''import x from '' @ [sq] @ ''./a.mjs'' @ [sq])
   \<and> (case modifyToBuffer_each [no_faults, write_fails] (scanned [a_js]) (disk import_x) of
        (m', s') \<Rightarrow>
          m' = scanned [a_js] \<and> files s' = files (disk import_x)
          \<and> writes s' = writes (disk import_x)
          \<and> fst (modifyToFile no_faults m' s') = Inr ()
          \<and> fst (modifyToBuffer no_faults m' s')
              = Inr (''import x from '' @ [sq] @ ''./a.mjs'' @ [sq]))
   \<and> localImports (scanned [a_js]) = Inr [a_js]"
proof -
  obtain m' s' where
    h: "modifyToBuffer_each [no_faults, write_fails] (scanned [a_js]) (disk import_x) = (m', s')"
    by (cases "modifyToBuffer_each [no_faults, write_fails] (scanned [a_js]) (disk import_x)")
  from modifyToBuffer_changes_nothing [OF h, of import_x
      "''import x from '' @ [sq] @ ''./a.mjs'' @ [sq]"]
  show ?thesis
    unfolding h by (auto simp add: scanned_fields disk_file replace_import_x)
qed

text \<open>
  C7. With no literal to substitute, \<open>replace\<close> returns the buffer it was given, and
  so \<open>modifyToBuffer\<close>, when no call fails, returns the bytes of the file.
\<close>

theorem empty_plan_output:
  assumes "substituteLiterals m = []"
  shows "replace m buf = Inr buf
       \<and> (initialized m \<and> files s (filePath m) = Some buf
          \<longrightarrow> fst (modifyToBuffer no_faults m s) = Inr buf)"
proof -
  have r: "replace m buf = Inr buf"
    using assms by (simp add: replace_def Buffer_concat_def subarray_from_def)
  have "fst (modifyToBuffer no_faults m s) = Inr buf"
    if "initialized m" "files s (filePath m) = Some buf"
    using modifyToBuffer_succeeds [OF that] r by simp
  with r show ?thesis by blast
qed

theorem empty_plan_output_witness:
  "substituteLiterals (scanned []) = [] \<and> initialized (scanned [])
   \<and> files (disk import_left_pad) (filePath (scanned [])) = Some import_left_pad
   \<and> replace (scanned []) import_left_pad = Inr import_left_pad
   \<and> fst (modifyToBuffer no_faults (scanned []) (disk import_left_pad)) = Inr import_left_pad"
proof -
  have h: "substituteLiterals (scanned []) = []"
    by (simp add: scanned_fields)
  from empty_plan_output [OF h, of import_left_pad "disk import_left_pad"]
  show ?thesis
    by (simp add: scanned_fields disk_file)
qed

subsection \<open>Calling \<^verbatim>\<open>init\<close> again\<close>












end
